theory Spec2Isabelle
  imports Main "HOL-Library.Char_ord" "HOL-Library.List_Lexorder"
begin

section \<open>Data model (internal/model/models.go)\<close>

text \<open>
  Amounts and prices are \<^verbatim>\<open>float64\<close> in the source. The model is parametric in the
  number type \<open>'a\<close> and asks of it only the operations the code uses (\<open>+\<close> and unary
  \<open>-\<close>); a result that needs an algebraic law names the class that provides it.

  The record fields carry a short prefix, since the Go structs share field names:
  \<open>bal_\<close> Balance, \<open>w_\<close> Wallet, \<open>cat_\<close> Category, \<open>con_\<close> Contact, \<open>tx_\<close> Tx.
\<close>

text \<open>
  \<^verbatim>\<open>time.Time\<close>: the instant (\<^verbatim>\<open>Before\<close> compares instants) and the calendar fields
  that \<^verbatim>\<open>Year()\<close>, \<^verbatim>\<open>Month()\<close> and \<^verbatim>\<open>Format\<close> read in the value's location.
\<close>

record Time =
  t_instant :: int
  t_Year :: int
  t_Month :: nat
  t_Day :: nat

record 'a Balance =
  bal_Coin :: string
  bal_Amount :: 'a

record 'a Wallet =
  w_Name :: string
  w_Address :: string
  w_Category :: string
  w_Chain :: string
  w_Type :: string
  w_Note :: string
  w_Balances :: "'a Balance list"

record Category =
  cat_Name :: string
  cat_Color :: string

record Contact =
  con_Name :: string
  con_Address :: string
  con_Chain :: string
  con_Note :: string

text \<open>\<^verbatim>\<open>type TxType string\<close> with its four constants.\<close>

type_synonym TxType = string

abbreviation TxTypeDeposit :: TxType where "TxTypeDeposit \<equiv> ''deposit''"
abbreviation TxTypeWithdraw :: TxType where "TxTypeWithdraw \<equiv> ''withdraw''"
abbreviation TxTypeTransfer :: TxType where "TxTypeTransfer \<equiv> ''transfer''"
abbreviation TxTypeSwap :: TxType where "TxTypeSwap \<equiv> ''swap''"

record 'a Tx =
  tx_ID :: string
  tx_Type :: TxType
  tx_FromWallet :: string
  tx_ToWallet :: string
  tx_FromAddress :: string
  tx_ToAddress :: string
  tx_Coin :: string
  tx_Amount :: 'a
  tx_Fee :: 'a
  tx_FeeCoin :: string
  tx_SwapWallet :: string
  tx_SellCoin :: string
  tx_SellAmount :: 'a
  tx_BuyCoin :: string
  tx_BuyAmount :: 'a
  tx_Date :: Time
  tx_Note :: string

text \<open>
  \<^verbatim>\<open>model.Data\<close>: five Go maps keyed by name or id. The maps hold pointers; every
  pointer is stored under one key only (wallets enter through \<^verbatim>\<open>AddWallet\<close>,
  \<^verbatim>\<open>UpdateWallet\<close> or the JSON loader), so a map from key to value carries the
  same information and a write through a pointer is a write at its key.
\<close>

record 'a Data =
  Wallets :: "string \<rightharpoonup> 'a Wallet"
  Categories :: "string \<rightharpoonup> Category"
  Contacts :: "string \<rightharpoonup> Contact"
  Transactions :: "string \<rightharpoonup> 'a Tx"
  Prices :: "string \<rightharpoonup> 'a"

section \<open>The ledger store (internal/storage, unified JSON file)\<close>

text \<open>
  \<^verbatim>\<open>Storage\<close>: the data and the index of transaction ids. \<^verbatim>\<open>txIndex\<close> is a
  \<^verbatim>\<open>map[string]bool\<close> that is only ever read as \<^verbatim>\<open>s.txIndex[id]\<close>, which is
  \<^verbatim>\<open>false\<close> for a missing key. The directory and file name are used by the
  file access alone and are left out.
\<close>

record 'a Storage =
  data :: "'a Data"
  txIndex :: "string \<Rightarrow> bool"

text \<open>
  The errors the store returns, named after the spec's taxonomy; the source builds
  them with \<^verbatim>\<open>fmt.Errorf\<close>:
  \<^item> \<open>DuplicateKey id\<close>: "transaction with ID '%s' already exists";
  \<^item> \<open>WalletNotFound n\<close>: "wallet with name '%s' not found";
  \<^item> \<open>CategoryNotFound n\<close>: "category with name '%s' not found";
  \<^item> \<open>TxNotFound id\<close>: "transaction with ID '%s' not found";
  \<^item> \<open>InvalidReference\<close>: "both source and destination wallets are invalid";
  \<^item> \<open>SaveFailed e\<close>: what \<^verbatim>\<open>save\<close> returns when the JSON encoder or the file
    write fails.
\<close>

datatype io_error = MarshalFailed | WriteFailed

datatype error =
    DuplicateKey string
  | WalletNotFound string
  | CategoryNotFound string
  | TxNotFound string
  | InvalidReference
  | SaveFailed io_error

text \<open>
  \<^verbatim>\<open>save\<close> encodes the data and writes the file. The encoder and the file system
  are the environment: \<open>io\<close> says, for the data to be written, whether that fails.
\<close>

definition save :: "('a Data \<Rightarrow> io_error option) \<Rightarrow> 'a Storage \<Rightarrow> error option" where
  "save io s = map_option SaveFailed (io (data s))"

definition buildTxIndex :: "'a Storage \<Rightarrow> 'a Storage" where
  "buildTxIndex s = s\<lparr>txIndex := (\<lambda>id. Transactions (data s) id \<noteq> None)\<rparr>"

text \<open>\<^verbatim>\<open>GetWallet\<close> returns the pair (wallet, err) of the source: one of them is nil.\<close>

definition GetWallet :: "'a Storage \<Rightarrow> string \<Rightarrow> 'a Wallet option \<times> error option" where
  "GetWallet s name =
     (case Wallets (data s) name of
        None \<Rightarrow> (None, Some (WalletNotFound name))
      | Some wallet \<Rightarrow> (Some wallet, None))"

text \<open>
  \<^verbatim>\<open>updateBalance\<close>: the loop over \<^verbatim>\<open>wallet.Balances\<close> adds to the first entry
  whose coin is equal and returns; when the loop finds none, a new entry is appended.
\<close>

fun addToBalances :: "('a::plus) Balance list \<Rightarrow> string \<Rightarrow> 'a \<Rightarrow> 'a Balance list" where
  "addToBalances [] coin amount = [\<lparr>bal_Coin = coin, bal_Amount = amount\<rparr>]"
| "addToBalances (balance # rest) coin amount =
     (if bal_Coin balance = coin
      then balance\<lparr>bal_Amount := bal_Amount balance + amount\<rparr> # rest
      else balance # addToBalances rest coin amount)"

definition updateBalance :: "('a::plus) Wallet \<Rightarrow> string \<Rightarrow> 'a \<Rightarrow> 'a Wallet" where
  "updateBalance wallet coin amount =
     wallet\<lparr>w_Balances := addToBalances (w_Balances wallet) coin amount\<rparr>"

text \<open>
  The source calls \<^verbatim>\<open>updateBalance\<close> on the pointer that \<^verbatim>\<open>GetWallet\<close> returned for
  a name; the wallet stored under that name is the one that changes.
\<close>

definition updateBalanceOf :: "('a::plus) Storage \<Rightarrow> string \<Rightarrow> string \<Rightarrow> 'a \<Rightarrow> 'a Storage" where
  "updateBalanceOf s name coin amount =
     (case Wallets (data s) name of
        None \<Rightarrow> s
      | Some wallet \<Rightarrow>
          s\<lparr>data := (data s)\<lparr>Wallets := (Wallets (data s))(name \<mapsto> updateBalance wallet coin amount)\<rparr>\<rparr>)"

text \<open>\<^verbatim>\<open>SetPrice\<close> stores the price under the key it is given.\<close>

definition SetPrice ::
  "('a Data \<Rightarrow> io_error option) \<Rightarrow> string \<Rightarrow> 'a \<Rightarrow> 'a Storage \<Rightarrow> error option \<times> 'a Storage" where
  "SetPrice io coin price s =
     (let s' = s\<lparr>data := (data s)\<lparr>Prices := (Prices (data s))(coin \<mapsto> price)\<rparr>\<rparr>
      in (save io s', s'))"

text \<open>
  \<^verbatim>\<open>DeleteCategory\<close>: the loop over the wallet map clears the category of every
  wallet that names the deleted one.
\<close>

definition DeleteCategory ::
  "('a Data \<Rightarrow> io_error option) \<Rightarrow> string \<Rightarrow> 'a Storage \<Rightarrow> error option \<times> 'a Storage" where
  "DeleteCategory io name s =
     (case Categories (data s) name of
        None \<Rightarrow> (Some (CategoryNotFound name), s)
      | Some _ \<Rightarrow>
          let s' = s\<lparr>data := (data s)
                 \<lparr>Categories := (Categories (data s))(name := None),
                  Wallets := (\<lambda>k. map_option
                     (\<lambda>wallet. if w_Category wallet = name then wallet\<lparr>w_Category := []\<rparr> else wallet)
                     (Wallets (data s) k))\<rparr>\<rparr>
          in (save io s', s'))"


text \<open>
  \<^verbatim>\<open>AddTransaction\<close>. The duplicate check comes first and is skipped for the empty
  id. The switch on the type resolves the wallets, returns on a failed lookup and
  otherwise updates the balances; a type that is none of the four falls through.
  Then the transaction is stored under its id and the file is saved.
\<close>

definition AddTransaction ::
  "(('a::{plus,uminus}) Data \<Rightarrow> io_error option) \<Rightarrow> 'a Tx \<Rightarrow> 'a Storage \<Rightarrow> error option \<times> 'a Storage" where
  "AddTransaction io tx s =
     (if tx_ID tx \<noteq> [] \<and> txIndex s (tx_ID tx) then (Some (DuplicateKey (tx_ID tx)), s)
      else
        let r =
          (if tx_Type tx = TxTypeDeposit then
             (case GetWallet s (tx_ToWallet tx) of
                (_, Some err) \<Rightarrow> Inl err
              | (_, None) \<Rightarrow> Inr (updateBalanceOf s (tx_ToWallet tx) (tx_Coin tx) (tx_Amount tx)))
           else if tx_Type tx = TxTypeWithdraw then
             (case GetWallet s (tx_FromWallet tx) of
                (_, Some err) \<Rightarrow> Inl err
              | (_, None) \<Rightarrow> Inr (updateBalanceOf s (tx_FromWallet tx) (tx_Coin tx) (- tx_Amount tx)))
           else if tx_Type tx = TxTypeTransfer then
             (let (fromWallet, fromErr) =
                    (if tx_FromWallet tx \<noteq> [] then GetWallet s (tx_FromWallet tx) else (None, None));
                  (toWallet, toErr) =
                    (if tx_ToWallet tx \<noteq> [] then GetWallet s (tx_ToWallet tx) else (None, None))
              in if fromErr \<noteq> None \<and> toErr \<noteq> None then Inl InvalidReference
                 else
                   let s1 = (if fromWallet \<noteq> None
                             then updateBalanceOf s (tx_FromWallet tx) (tx_Coin tx) (- tx_Amount tx)
                             else s);
                       s2 = (if toWallet \<noteq> None
                             then updateBalanceOf s1 (tx_ToWallet tx) (tx_Coin tx) (tx_Amount tx)
                             else s1)
                   in Inr s2)
           else if tx_Type tx = TxTypeSwap then
             (case GetWallet s (tx_SwapWallet tx) of
                (_, Some err) \<Rightarrow> Inl err
              | (_, None) \<Rightarrow>
                  Inr (updateBalanceOf
                        (updateBalanceOf s (tx_SwapWallet tx) (tx_SellCoin tx) (- tx_SellAmount tx))
                        (tx_SwapWallet tx) (tx_BuyCoin tx) (tx_BuyAmount tx)))
           else Inr s)
        in case r of
             Inl err \<Rightarrow> (Some err, s)
           | Inr s1 \<Rightarrow>
               let s2 = s1\<lparr>data := (data s1)\<lparr>Transactions := (Transactions (data s1))(tx_ID tx \<mapsto> tx)\<rparr>,
                          txIndex := (txIndex s1)(tx_ID tx := True)\<rparr>
               in (save io s2, s2))"

text \<open>
  \<^verbatim>\<open>DeleteTransaction\<close>: the stored record is looked up by id; each wallet it names
  is looked up again and, when the lookup succeeds, gets the opposite amount. The
  lookups of a transfer are not guarded by a test for the empty name.
\<close>

definition DeleteTransaction ::
  "(('a::{plus,uminus}) Data \<Rightarrow> io_error option) \<Rightarrow> string \<Rightarrow> 'a Storage \<Rightarrow> error option \<times> 'a Storage" where
  "DeleteTransaction io txID s =
     (case Transactions (data s) txID of
        None \<Rightarrow> (Some (TxNotFound txID), s)
      | Some tx \<Rightarrow>
          let s1 =
            (if tx_Type tx = TxTypeDeposit then
               (case GetWallet s (tx_ToWallet tx) of
                  (_, None) \<Rightarrow> updateBalanceOf s (tx_ToWallet tx) (tx_Coin tx) (- tx_Amount tx)
                | (_, Some _) \<Rightarrow> s)
             else if tx_Type tx = TxTypeWithdraw then
               (case GetWallet s (tx_FromWallet tx) of
                  (_, None) \<Rightarrow> updateBalanceOf s (tx_FromWallet tx) (tx_Coin tx) (tx_Amount tx)
                | (_, Some _) \<Rightarrow> s)
             else if tx_Type tx = TxTypeTransfer then
               (let sa = (case GetWallet s (tx_FromWallet tx) of
                            (_, None) \<Rightarrow> updateBalanceOf s (tx_FromWallet tx) (tx_Coin tx) (tx_Amount tx)
                          | (_, Some _) \<Rightarrow> s)
                in case GetWallet sa (tx_ToWallet tx) of
                     (_, None) \<Rightarrow> updateBalanceOf sa (tx_ToWallet tx) (tx_Coin tx) (- tx_Amount tx)
                   | (_, Some _) \<Rightarrow> sa)
             else if tx_Type tx = TxTypeSwap then
               (case GetWallet s (tx_SwapWallet tx) of
                  (_, None) \<Rightarrow>
                    updateBalanceOf
                      (updateBalanceOf s (tx_SwapWallet tx) (tx_SellCoin tx) (tx_SellAmount tx))
                      (tx_SwapWallet tx) (tx_BuyCoin tx) (- tx_BuyAmount tx)
                | (_, Some _) \<Rightarrow> s)
             else s);
              s2 = s1\<lparr>data := (data s1)\<lparr>Transactions := (Transactions (data s1))(txID := None)\<rparr>,
                      txIndex := (txIndex s1)(txID := False)\<rparr>
          in (save io s2, s2))"

section \<open>The command palette's price command (cmdPrice)\<close>

text \<open>
  \<^verbatim>\<open>CommandResult\<close>: the success flag and the message. The message is kept as the
  format it was built from and its arguments, not as rendered text:
  "Usage: price COIN USD_PRICE", "Invalid price: %s", "Error: %v" and
  "Set %s price: $%.2f". The other fields keep their zero values in \<^verbatim>\<open>cmdPrice\<close>.
\<close>

datatype 'a Message =
    UsagePrice
  | InvalidPrice string
  | ErrorMessage error
  | PriceSet string 'a

record 'a CommandResult =
  Success :: bool
  Message :: "'a Message"

text \<open>
  \<^verbatim>\<open>cmdPrice\<close> lower-cases the first argument, parses the second and calls
  \<^verbatim>\<open>SetPrice\<close>. \<^verbatim>\<open>strings.ToLower\<close> and \<^verbatim>\<open>strconv.ParseFloat\<close> belong to the Go
  library and are parameters.
\<close>

definition cmdPrice ::
  "(string \<Rightarrow> string) \<Rightarrow> (string \<Rightarrow> 'a option) \<Rightarrow> ('a Data \<Rightarrow> io_error option) \<Rightarrow>
   string list \<Rightarrow> 'a Storage \<Rightarrow> 'a CommandResult \<times> 'a Storage" where
  "cmdPrice ToLower ParseFloat io args s =
     (if length args < 2 then (\<lparr>Success = False, Message = UsagePrice\<rparr>, s)
      else
        let coin = ToLower (args ! 0) in
        case ParseFloat (args ! 1) of
          None \<Rightarrow> (\<lparr>Success = False, Message = InvalidPrice (args ! 1)\<rparr>, s)
        | Some price \<Rightarrow>
            (case SetPrice io coin price s of
               (Some err, s') \<Rightarrow> (\<lparr>Success = False, Message = ErrorMessage err\<rparr>, s')
             | (None, s') \<Rightarrow> (\<lparr>Success = True, Message = PriceSet coin price\<rparr>, s')))"

text \<open>What \<^verbatim>\<open>strings.ToLower\<close> does to each byte of an ASCII string.\<close>

definition asciiLower :: "char \<Rightarrow> char" where
  "asciiLower c =
     (case map_of (zip ''ABCDEFGHIJKLMNOPQRSTUVWXYZ'' ''abcdefghijklmnopqrstuvwxyz'') c of
        None \<Rightarrow> c
      | Some l \<Rightarrow> l)"

section \<open>The transaction aggregator (cmd/wago dashboard)\<close>











definition edgeKey :: "string \<Rightarrow> string \<Rightarrow> string \<Rightarrow> TxType \<Rightarrow> string" where
  "edgeKey from to coin txType = from @ ''|'' @ to @ ''|'' @ coin @ ''|'' @ txType"

text \<open>An address longer than 10 bytes is cut to its first 6 and last 4 around three dots.\<close>

definition shorten :: "string \<Rightarrow> string" where
  "shorten addr =
     (if length addr > 10 then take 6 addr @ ''...'' @ drop (length addr - 4) addr else addr)"







section \<open>Notions used to state the properties\<close>

text \<open>The index agrees with the transaction map, as after \<^verbatim>\<open>load\<close>.\<close>

definition indexed :: "'a Storage \<Rightarrow> bool" where
  "indexed s = (txIndex s = (\<lambda>id. Transactions (data s) id \<noteq> None))"

text \<open>The duplicate test of \<^verbatim>\<open>AddTransaction\<close>.\<close>

definition duplicate :: "'a Tx \<Rightarrow> 'a Storage \<Rightarrow> bool" where
  "duplicate tx s = (tx_ID tx \<noteq> [] \<and> txIndex s (tx_ID tx))"

text \<open>The last statements of \<^verbatim>\<open>AddTransaction\<close>: store under the id, mark the index, save.\<close>

definition storeTx ::
  "('a Data \<Rightarrow> io_error option) \<Rightarrow> 'a Tx \<Rightarrow> 'a Storage \<Rightarrow> error option \<times> 'a Storage" where
  "storeTx io tx s1 =
     (let s2 = s1\<lparr>data := (data s1)\<lparr>Transactions := (Transactions (data s1))(tx_ID tx \<mapsto> tx)\<rparr>,
                 txIndex := (txIndex s1)(tx_ID tx := True)\<rparr>
      in (save io s2, s2))"

text \<open>The last statements of \<^verbatim>\<open>DeleteTransaction\<close>: remove the id from both maps, save.\<close>

definition dropTx ::
  "('a Data \<Rightarrow> io_error option) \<Rightarrow> string \<Rightarrow> 'a Storage \<Rightarrow> error option \<times> 'a Storage" where
  "dropTx io txID s1 =
     (let s2 = s1\<lparr>data := (data s1)\<lparr>Transactions := (Transactions (data s1))(txID := None)\<rparr>,
                 txIndex := (txIndex s1)(txID := False)\<rparr>
      in (save io s2, s2))"

text \<open>
  A side of a transfer resolves when \<^verbatim>\<open>AddTransaction\<close> looks its name up and finds a
  wallet; its lookup fails when the name is looked up and no wallet is found. The
  empty name is not looked up, so it does neither.
\<close>

definition resolves :: "'a Storage \<Rightarrow> string \<Rightarrow> bool" where
  "resolves s name = (name \<noteq> [] \<and> Wallets (data s) name \<noteq> None)"

definition lookupFails :: "'a Storage \<Rightarrow> string \<Rightarrow> bool" where
  "lookupFails s name = (name \<noteq> [] \<and> Wallets (data s) name = None)"

text \<open>
  Reading a balance list: the amount of the first entry for a coin, if there is one;
  \<open>balanceOf\<close> counts a missing entry as zero.
\<close>

fun entryOf :: "'a Balance list \<Rightarrow> string \<Rightarrow> 'a option" where
  "entryOf [] coin = None"
| "entryOf (balance # rest) coin =
     (if bal_Coin balance = coin then Some (bal_Amount balance) else entryOf rest coin)"

definition balanceOf :: "('a::zero) Balance list \<Rightarrow> string \<Rightarrow> 'a" where
  "balanceOf bs coin = (case entryOf bs coin of None \<Rightarrow> 0 | Some x \<Rightarrow> x)"


text \<open>
  A delta is a wallet name, a coin and a signed amount. Applying it changes the wallet
  stored under the name and does nothing when there is none.
\<close>

type_synonym 'a delta = "string \<times> string \<times> 'a"

definition applyDelta :: "(string \<rightharpoonup> ('a::plus) Wallet) \<Rightarrow> 'a delta \<Rightarrow> (string \<rightharpoonup> 'a Wallet)" where
  "applyDelta ws d =
     (case d of (name, coin, amount) \<Rightarrow>
        (case ws name of
           None \<Rightarrow> ws
         | Some wallet \<Rightarrow> ws(name \<mapsto> updateBalance wallet coin amount)))"

text \<open>
  The spec's table of balance effects, and its rule for deletion: the same deltas with
  the sign flipped.
\<close>

definition spec_insertionDeltas :: "('a::uminus) Tx \<Rightarrow> 'a delta list" where
  "spec_insertionDeltas tx =
     (if tx_Type tx = TxTypeDeposit then [(tx_ToWallet tx, tx_Coin tx, tx_Amount tx)]
      else if tx_Type tx = TxTypeWithdraw then [(tx_FromWallet tx, tx_Coin tx, - tx_Amount tx)]
      else if tx_Type tx = TxTypeTransfer then
        [(tx_FromWallet tx, tx_Coin tx, - tx_Amount tx), (tx_ToWallet tx, tx_Coin tx, tx_Amount tx)]
      else if tx_Type tx = TxTypeSwap then
        [(tx_SwapWallet tx, tx_SellCoin tx, - tx_SellAmount tx),
         (tx_SwapWallet tx, tx_BuyCoin tx, tx_BuyAmount tx)]
      else [])"

definition spec_reversalDeltas :: "('a::uminus) Tx \<Rightarrow> 'a delta list" where
  "spec_reversalDeltas tx = map (\<lambda>(name, coin, amount). (name, coin, - amount)) (spec_insertionDeltas tx)"



definition edgeFrom :: "'a Tx \<Rightarrow> string" where
  "edgeFrom tx =
     (if tx_Type tx = TxTypeDeposit then ''External''
      else if tx_Type tx = TxTypeWithdraw then tx_FromWallet tx
      else if tx_FromWallet tx = [] \<and> tx_FromAddress tx \<noteq> [] then shorten (tx_FromAddress tx)
      else tx_FromWallet tx)"

definition edgeTo :: "'a Tx \<Rightarrow> string" where
  "edgeTo tx =
     (if tx_Type tx = TxTypeDeposit then tx_ToWallet tx
      else if tx_Type tx = TxTypeWithdraw then ''External''
      else if tx_ToWallet tx = [] \<and> tx_ToAddress tx \<noteq> [] then shorten (tx_ToAddress tx)
      else tx_ToWallet tx)"

definition keyOf :: "'a Tx \<Rightarrow> string" where
  "keyOf tx = edgeKey (edgeFrom tx) (edgeTo tx) (tx_Coin tx) (tx_Type tx)"





section \<open>Example values\<close>

text \<open>A file system that never fails, one wallet \<open>W\<close> in category \<open>defi\<close>, and blank transactions.\<close>

definition ioOk :: "'a Data \<Rightarrow> io_error option" where
  "ioOk d = None"

definition exDate :: Time where
  "exDate = \<lparr>t_instant = 1736035200, t_Year = 2025, t_Month = 1, t_Day = 5\<rparr>"

definition exWallet :: "string \<Rightarrow> int Wallet" where
  "exWallet name =
     \<lparr>w_Name = name, w_Address = ''So1anaAddre55'', w_Category = ''defi'', w_Chain = ''solana'',
      w_Type = ''hot'', w_Note = [], w_Balances = []\<rparr>"

definition exStorage :: "int Storage" where
  "exStorage =
     \<lparr>data = \<lparr>Wallets = [''W'' \<mapsto> exWallet ''W''],
              Categories = [''defi'' \<mapsto> \<lparr>cat_Name = ''defi'', cat_Color = ''red''\<rparr>],
              Contacts = Map.empty,
              Transactions = Map.empty,
              Prices = [''usdc'' \<mapsto> 1, ''usdt'' \<mapsto> 1]\<rparr>,
      txIndex = (\<lambda>id. False)\<rparr>"

definition exTx :: "string \<Rightarrow> TxType \<Rightarrow> int Tx" where
  "exTx txID txType =
     \<lparr>tx_ID = txID, tx_Type = txType, tx_FromWallet = [], tx_ToWallet = [], tx_FromAddress = [],
      tx_ToAddress = [], tx_Coin = [], tx_Amount = 0, tx_Fee = 0, tx_FeeCoin = [],
      tx_SwapWallet = [], tx_SellCoin = [], tx_SellAmount = 0, tx_BuyCoin = [], tx_BuyAmount = 0,
      tx_Date = exDate, tx_Note = []\<rparr>"

definition exDeposit :: "string \<Rightarrow> string \<Rightarrow> int \<Rightarrow> int Tx" where
  "exDeposit txID wallet amount =
     (exTx txID TxTypeDeposit)\<lparr>tx_ToWallet := wallet, tx_Coin := ''BTC'', tx_Amount := amount\<rparr>"

definition exParseFloat :: "string \<Rightarrow> int option" where
  "exParseFloat str = (if str = ''3'' then Some 3 else None)"

definition exTransfer :: "string \<Rightarrow> string \<Rightarrow> string \<Rightarrow> int \<Rightarrow> int Tx" where
  "exTransfer txID src dst amount =
     (exTx txID TxTypeTransfer)
       \<lparr>tx_FromWallet := src, tx_ToWallet := dst, tx_Coin := ''BTC'', tx_Amount := amount\<rparr>"

definition exSwap :: "string \<Rightarrow> string \<Rightarrow> int \<Rightarrow> string \<Rightarrow> int \<Rightarrow> string \<Rightarrow> int Tx" where
  "exSwap txID wallet sellAmount sellCoin buyAmount buyCoin =
     (exTx txID TxTypeSwap)
       \<lparr>tx_SwapWallet := wallet, tx_SellCoin := sellCoin, tx_SellAmount := sellAmount,
        tx_BuyCoin := buyCoin, tx_BuyAmount := buyAmount\<rparr>"

text \<open>The example store with a second wallet, stored under the empty name.\<close>

definition exStorageBlank :: "int Storage" where
  "exStorageBlank =
     exStorage\<lparr>data := (data exStorage)\<lparr>Wallets := [''W'' \<mapsto> exWallet ''W'', [] \<mapsto> exWallet []]\<rparr>\<rparr>"








section \<open>Balance lists\<close>

lemma entryOf_None_iff: "entryOf bs c = None \<longleftrightarrow> c \<notin> bal_Coin ` set bs"
  by (induction bs) auto

lemma entryOf_addToBalances:
  "entryOf (addToBalances bs c d) c' =
     (if c' = c then Some (case entryOf bs c of None \<Rightarrow> d | Some x \<Rightarrow> x + d) else entryOf bs c')"
  by (induction bs) auto

lemma balanceOf_addToBalances:
  fixes d :: "'a::monoid_add"
  shows "balanceOf (addToBalances bs c d) c' =
     (if c' = c then balanceOf bs c + d else balanceOf bs c')"
  by (simp add: balanceOf_def entryOf_addToBalances split: option.splits)

lemma addToBalances_absent:
  "c \<notin> bal_Coin ` set bs \<Longrightarrow> addToBalances bs c d = bs @ [\<lparr>bal_Coin = c, bal_Amount = d\<rparr>]"
  by (induction bs) auto








section \<open>The branches of AddTransaction and DeleteTransaction\<close>

lemma updateBalanceOf_keeps [simp]:
  "Transactions (data (updateBalanceOf s n c a)) = Transactions (data s)"
  "txIndex (updateBalanceOf s n c a) = txIndex s"
  "Categories (data (updateBalanceOf s n c a)) = Categories (data s)"
  "Contacts (data (updateBalanceOf s n c a)) = Contacts (data s)"
  "Prices (data (updateBalanceOf s n c a)) = Prices (data s)"
  by (simp_all add: updateBalanceOf_def split: option.splits)

lemma Wallets_updateBalanceOf:
  "Wallets (data (updateBalanceOf s n c a)) = applyDelta (Wallets (data s)) (n, c, a)"
  by (simp add: updateBalanceOf_def applyDelta_def split: option.splits)

lemma AddTransaction_duplicate_case:
  "duplicate tx s \<Longrightarrow> AddTransaction io tx s = (Some (DuplicateKey (tx_ID tx)), s)"
  by (simp add: AddTransaction_def duplicate_def)

lemma AddTransaction_deposit:
  assumes "\<not> duplicate tx s" "tx_Type tx = TxTypeDeposit"
  shows "AddTransaction io tx s =
     (case Wallets (data s) (tx_ToWallet tx) of
        None \<Rightarrow> (Some (WalletNotFound (tx_ToWallet tx)), s)
      | Some w \<Rightarrow> storeTx io tx (updateBalanceOf s (tx_ToWallet tx) (tx_Coin tx) (tx_Amount tx)))"
  using assms
  by (auto simp: AddTransaction_def duplicate_def GetWallet_def storeTx_def Let_def
           split: option.splits)

lemma AddTransaction_withdraw:
  assumes "\<not> duplicate tx s" "tx_Type tx = TxTypeWithdraw"
  shows "AddTransaction io tx s =
     (case Wallets (data s) (tx_FromWallet tx) of
        None \<Rightarrow> (Some (WalletNotFound (tx_FromWallet tx)), s)
      | Some w \<Rightarrow> storeTx io tx (updateBalanceOf s (tx_FromWallet tx) (tx_Coin tx) (- tx_Amount tx)))"
  using assms
  by (auto simp: AddTransaction_def duplicate_def GetWallet_def storeTx_def Let_def
           split: option.splits)

lemma AddTransaction_transfer:
  assumes "\<not> duplicate tx s" "tx_Type tx = TxTypeTransfer"
  shows "AddTransaction io tx s =
     (if lookupFails s (tx_FromWallet tx) \<and> lookupFails s (tx_ToWallet tx)
      then (Some InvalidReference, s)
      else storeTx io tx
        (let s1 = (if resolves s (tx_FromWallet tx)
                   then updateBalanceOf s (tx_FromWallet tx) (tx_Coin tx) (- tx_Amount tx) else s)
         in if resolves s (tx_ToWallet tx)
            then updateBalanceOf s1 (tx_ToWallet tx) (tx_Coin tx) (tx_Amount tx) else s1))"
  using assms
  by (auto simp: AddTransaction_def duplicate_def GetWallet_def storeTx_def Let_def
                 resolves_def lookupFails_def split: option.splits)

lemma AddTransaction_swap:
  assumes "\<not> duplicate tx s" "tx_Type tx = TxTypeSwap"
  shows "AddTransaction io tx s =
     (case Wallets (data s) (tx_SwapWallet tx) of
        None \<Rightarrow> (Some (WalletNotFound (tx_SwapWallet tx)), s)
      | Some w \<Rightarrow> storeTx io tx
          (updateBalanceOf
            (updateBalanceOf s (tx_SwapWallet tx) (tx_SellCoin tx) (- tx_SellAmount tx))
            (tx_SwapWallet tx) (tx_BuyCoin tx) (tx_BuyAmount tx)))"
  using assms
  by (auto simp: AddTransaction_def duplicate_def GetWallet_def storeTx_def Let_def
           split: option.splits)

lemma AddTransaction_other:
  assumes "\<not> duplicate tx s" "tx_Type tx \<noteq> TxTypeDeposit" "tx_Type tx \<noteq> TxTypeWithdraw"
    "tx_Type tx \<noteq> TxTypeTransfer" "tx_Type tx \<noteq> TxTypeSwap"
  shows "AddTransaction io tx s = storeTx io tx s"
  using assms
  by (auto simp: AddTransaction_def duplicate_def storeTx_def Let_def)

lemma fst_storeTx: "fst (storeTx io tx s) = map_option SaveFailed (io (data (snd (storeTx io tx s))))"
  by (simp add: storeTx_def Let_def save_def)

lemma snd_storeTx:
  "snd (storeTx io tx s) =
     s\<lparr>data := (data s)\<lparr>Transactions := (Transactions (data s))(tx_ID tx \<mapsto> tx)\<rparr>,
       txIndex := (txIndex s)(tx_ID tx := True)\<rparr>"
  by (simp add: storeTx_def Let_def)

lemma storeTx_error: "fst (storeTx io tx s1) = Some e \<Longrightarrow> \<exists>x. e = SaveFailed x"
  by (auto simp: fst_storeTx)


lemma snd_dropTx:
  "snd (dropTx io txID s) =
     s\<lparr>data := (data s)\<lparr>Transactions := (Transactions (data s))(txID := None)\<rparr>,
       txIndex := (txIndex s)(txID := False)\<rparr>"
  by (simp add: dropTx_def Let_def)

lemma DeleteTransaction_found:
  fixes tx :: "('a::group_add) Tx"
  assumes "Transactions (data s) txID = Some tx"
  shows "DeleteTransaction io txID s =
     dropTx io txID
       (s\<lparr>data := (data s)\<lparr>Wallets := foldl applyDelta (Wallets (data s)) (spec_reversalDeltas tx)\<rparr>\<rparr>)"
  using assms
  apply (simp add: DeleteTransaction_def GetWallet_def dropTx_def Let_def
                   spec_reversalDeltas_def spec_insertionDeltas_def)
  apply (auto simp: updateBalanceOf_def applyDelta_def split: option.splits)
  done



section \<open>Category deletion\<close>

text \<open>
  C7. For a category \<open>C\<close> that is in the category map, \<^verbatim>\<open>DeleteCategory\<close> removes \<open>C\<close>
  from the category map and leaves the other categories alone; it keeps the set of wallets
  (no wallet is deleted); every wallet whose category field equals \<open>C\<close> gets the empty
  category and is otherwise unchanged, and every other wallet is unchanged. The value
  returned is the outcome of saving.
\<close>

theorem DeleteCategory_clears_references:
  assumes "Categories (data s) C = Some cat"
  shows "fst (DeleteCategory io C s) = map_option SaveFailed (io (data (snd (DeleteCategory io C s))))
       \<and> Categories (data (snd (DeleteCategory io C s))) = (Categories (data s))(C := None)
       \<and> dom (Wallets (data (snd (DeleteCategory io C s)))) = dom (Wallets (data s))
       \<and> (\<forall>k w. Wallets (data s) k = Some w \<longrightarrow>
             Wallets (data (snd (DeleteCategory io C s))) k =
               Some (if w_Category w = C then w\<lparr>w_Category := []\<rparr> else w))"
  using assms by (auto simp: DeleteCategory_def Let_def dom_def save_def)

theorem DeleteCategory_clears_references_witness:
  "Categories (data exStorage) ''defi'' = Some \<lparr>cat_Name = ''defi'', cat_Color = ''red''\<rparr>
   \<and> fst (DeleteCategory ioOk ''defi'' exStorage) = None
   \<and> Categories (data (snd (DeleteCategory ioOk ''defi'' exStorage))) ''defi'' = None
   \<and> Wallets (data (snd (DeleteCategory ioOk ''defi'' exStorage))) ''W''
       = Some ((exWallet ''W'')\<lparr>w_Category := []\<rparr>)"
proof -
  have h: "Categories (data exStorage) ''defi'' = Some \<lparr>cat_Name = ''defi'', cat_Color = ''red''\<rparr>"
    by (simp add: exStorage_def)
  have w: "Wallets (data exStorage) ''W'' = Some (exWallet ''W'')"
    by (simp add: exStorage_def)
  have c: "w_Category (exWallet ''W'') = ''defi''"
    by (simp add: exWallet_def)
  from DeleteCategory_clears_references [OF h, of ioOk] w c h show ?thesis
    by (simp add: ioOk_def)
qed

section \<open>Failed insertions\<close>

text \<open>
  C10. When \<^verbatim>\<open>AddTransaction\<close> returns one of its own errors (duplicate id, wallet not
  found for a deposit, withdraw or swap, or a transfer whose two lookups both fail), the
  store is the one it was called with: no balance, balance entry, transaction or index
  entry has changed. A failure to write the file is reported after the update and is
  not one of these errors.
\<close>

theorem AddTransaction_error_unchanged:
  assumes err: "fst (AddTransaction io tx s) = Some e" and ledger: "\<forall>x. e \<noteq> SaveFailed x"
  shows "snd (AddTransaction io tx s) = s"
proof (cases "duplicate tx s")
  case True
  then show ?thesis by (simp add: AddTransaction_duplicate_case)
next
  case False
  have stored: "\<forall>s1. AddTransaction io tx s \<noteq> storeTx io tx s1"
    using err ledger storeTx_error by metis
  consider (dep) "tx_Type tx = TxTypeDeposit" | (wd) "tx_Type tx = TxTypeWithdraw"
    | (tf) "tx_Type tx = TxTypeTransfer" | (sw) "tx_Type tx = TxTypeSwap"
    | (other) "tx_Type tx \<noteq> TxTypeDeposit" "tx_Type tx \<noteq> TxTypeWithdraw"
        "tx_Type tx \<noteq> TxTypeTransfer" "tx_Type tx \<noteq> TxTypeSwap"
    by blast
  then show ?thesis
  proof cases
    case dep
    with False stored show ?thesis
      by (auto simp: AddTransaction_deposit split: option.splits)
  next
    case wd
    with False stored show ?thesis
      by (auto simp: AddTransaction_withdraw split: option.splits)
  next
    case tf
    with False stored show ?thesis
      by (auto simp: AddTransaction_transfer split: if_splits)
  next
    case sw
    with False stored show ?thesis
      by (auto simp: AddTransaction_swap split: option.splits)
  next
    case other
    with False stored show ?thesis
      by (auto simp: AddTransaction_other)
  qed
qed

theorem AddTransaction_error_unchanged_witness:
  "fst (AddTransaction ioOk (exDeposit ''tx_1'' ''ghost'' 5) exStorage) = Some (WalletNotFound ''ghost'')
   \<and> snd (AddTransaction ioOk (exDeposit ''tx_1'' ''ghost'' 5) exStorage) = exStorage"
proof -
  have e: "fst (AddTransaction ioOk (exDeposit ''tx_1'' ''ghost'' 5) exStorage) = Some (WalletNotFound ''ghost'')"
    by (simp add: AddTransaction_def GetWallet_def exDeposit_def exTx_def exStorage_def)
  have l: "\<forall>x. WalletNotFound ''ghost'' \<noteq> SaveFailed x" by simp
  from AddTransaction_error_unchanged [OF e l] e show ?thesis by simp
qed

section \<open>The index of transaction ids\<close>

lemma indexed_buildTxIndex: "indexed (buildTxIndex s)"
  by (simp add: indexed_def buildTxIndex_def)

lemma indexed_storeTx: "indexed s \<Longrightarrow> indexed (snd (storeTx io tx s))"
  by (auto simp: indexed_def snd_storeTx)

lemma indexed_updateBalanceOf: "indexed (updateBalanceOf s n c a) = indexed s"
  by (simp add: indexed_def)

lemma indexed_AddTransaction:
  assumes "indexed s"
  shows "indexed (snd (AddTransaction io tx s))"
proof (cases "duplicate tx s")
  case True
  with assms show ?thesis by (simp add: AddTransaction_duplicate_case)
next
  case False
  consider (dep) "tx_Type tx = TxTypeDeposit" | (wd) "tx_Type tx = TxTypeWithdraw"
    | (tf) "tx_Type tx = TxTypeTransfer" | (sw) "tx_Type tx = TxTypeSwap"
    | (other) "tx_Type tx \<noteq> TxTypeDeposit" "tx_Type tx \<noteq> TxTypeWithdraw"
        "tx_Type tx \<noteq> TxTypeTransfer" "tx_Type tx \<noteq> TxTypeSwap"
    by blast
  then show ?thesis
  proof cases
    case dep
    with False assms show ?thesis
      by (simp add: AddTransaction_deposit indexed_storeTx indexed_updateBalanceOf split: option.splits)
  next
    case wd
    with False assms show ?thesis
      by (simp add: AddTransaction_withdraw indexed_storeTx indexed_updateBalanceOf split: option.splits)
  next
    case tf
    with False assms show ?thesis
      by (simp add: AddTransaction_transfer indexed_storeTx indexed_updateBalanceOf Let_def)
  next
    case sw
    with False assms show ?thesis
      by (simp add: AddTransaction_swap indexed_storeTx indexed_updateBalanceOf split: option.splits)
  next
    case other
    with False assms show ?thesis
      by (simp add: AddTransaction_other indexed_storeTx)
  qed
qed

lemma indexed_dropTx: "indexed s \<Longrightarrow> indexed (snd (dropTx io txID s))"
  by (auto simp: indexed_def snd_dropTx)

lemma indexed_DeleteTransaction:
  fixes s :: "('a::group_add) Storage"
  assumes "indexed s"
  shows "indexed (snd (DeleteTransaction io txID s))"
proof (cases "Transactions (data s) txID")
  case None
  with assms show ?thesis by (simp add: DeleteTransaction_def)
next
  case (Some tx)
  have "indexed (s\<lparr>data := (data s)\<lparr>Wallets := foldl applyDelta (Wallets (data s)) (spec_reversalDeltas tx)\<rparr>\<rparr>)"
    using assms by (simp add: indexed_def)
  then show ?thesis
    by (simp add: DeleteTransaction_found [OF Some] indexed_dropTx)
qed

lemma indexed_exStorage: "indexed exStorage"
  by (simp add: indexed_def exStorage_def)

lemma AddTransaction_exDeposit:
  "AddTransaction ioOk (exDeposit txID ''W'' n) exStorage =
     (None,
      exStorage\<lparr>data := (data exStorage)
         \<lparr>Wallets := [''W'' \<mapsto> (exWallet ''W'')\<lparr>w_Balances := [\<lparr>bal_Coin = ''BTC'', bal_Amount = n\<rparr>]\<rparr>],
          Transactions := [txID \<mapsto> exDeposit txID ''W'' n]\<rparr>,
        txIndex := (\<lambda>id. False)(txID := True)\<rparr>)"
  by (simp add: AddTransaction_def GetWallet_def updateBalanceOf_def updateBalance_def save_def
                ioOk_def exStorage_def exDeposit_def exTx_def exWallet_def Let_def)

section \<open>Uniqueness of transaction ids\<close>

text \<open>
  C2, for ids other than the empty string. When the transaction map holds a transaction
  under the id of \<open>tx\<close>, the id is not empty, and the index agrees with the map (as it does
  after \<^verbatim>\<open>load\<close> and after every insertion), \<^verbatim>\<open>AddTransaction\<close> returns the
  duplicate-key error and the store it was given: the number of transactions and every
  wallet with its balances are as before.
\<close>

theorem AddTransaction_duplicate_id:
  assumes "Transactions (data s) (tx_ID tx) \<noteq> None" and "indexed s" and "tx_ID tx \<noteq> []"
  shows "AddTransaction io tx s = (Some (DuplicateKey (tx_ID tx)), s)
       \<and> card (dom (Transactions (data (snd (AddTransaction io tx s))))) = card (dom (Transactions (data s)))
       \<and> Wallets (data (snd (AddTransaction io tx s))) = Wallets (data s)"
  using assms by (simp add: AddTransaction_def indexed_def)

theorem AddTransaction_duplicate_id_witness:
  "AddTransaction ioOk (exDeposit ''tx_1'' ''W'' 7) (snd (AddTransaction ioOk (exDeposit ''tx_1'' ''W'' 5) exStorage))
     = (Some (DuplicateKey ''tx_1''), snd (AddTransaction ioOk (exDeposit ''tx_1'' ''W'' 5) exStorage))"
proof -
  let ?s1 = "snd (AddTransaction ioOk (exDeposit ''tx_1'' ''W'' 5) exStorage)"
  have a: "Transactions (data ?s1) (tx_ID (exDeposit ''tx_1'' ''W'' 7)) \<noteq> None"
    by (simp add: AddTransaction_exDeposit) (simp add: exDeposit_def exTx_def)
  have b: "indexed ?s1"
    by (rule indexed_AddTransaction [OF indexed_exStorage])
  have c: "tx_ID (exDeposit ''tx_1'' ''W'' 7) \<noteq> []"
    by (simp add: exDeposit_def exTx_def)
  have d: "tx_ID (exDeposit ''tx_1'' ''W'' 7) = ''tx_1''"
    by (simp add: exDeposit_def exTx_def)
  from AddTransaction_duplicate_id [OF a b c, of ioOk] d show ?thesis by simp
qed

text \<open>
  The empty id is exempt from the duplicate test. After a deposit of 5 with the empty id
  the map holds a transaction under that id; a second deposit of 7 with the empty id is
  accepted, replaces the stored transaction and raises the balance to 12.
\<close>

theorem AddTransaction_empty_id_counterexample:
  "Transactions (data (snd (AddTransaction ioOk (exDeposit [] ''W'' 5) exStorage))) [] \<noteq> None
   \<and> indexed (snd (AddTransaction ioOk (exDeposit [] ''W'' 5) exStorage))
   \<and> fst (AddTransaction ioOk (exDeposit [] ''W'' 7)
            (snd (AddTransaction ioOk (exDeposit [] ''W'' 5) exStorage))) = None
   \<and> map_option w_Balances
        (Wallets (data (snd (AddTransaction ioOk (exDeposit [] ''W'' 5) exStorage))) ''W'')
       = Some [\<lparr>bal_Coin = ''BTC'', bal_Amount = 5\<rparr>]
   \<and> map_option w_Balances
        (Wallets (data (snd (AddTransaction ioOk (exDeposit [] ''W'' 7)
            (snd (AddTransaction ioOk (exDeposit [] ''W'' 5) exStorage))))) ''W'')
       = Some [\<lparr>bal_Coin = ''BTC'', bal_Amount = 12\<rparr>]"
proof -
  let ?s1 = "snd (AddTransaction ioOk (exDeposit [] ''W'' 5) exStorage)"
  have b: "indexed ?s1"
    by (rule indexed_AddTransaction [OF indexed_exStorage])
  have s1: "?s1 = exStorage\<lparr>data := (data exStorage)
         \<lparr>Wallets := [''W'' \<mapsto> (exWallet ''W'')\<lparr>w_Balances := [\<lparr>bal_Coin = ''BTC'', bal_Amount = 5\<rparr>]\<rparr>],
          Transactions := [[] \<mapsto> exDeposit [] ''W'' 5]\<rparr>,
        txIndex := (\<lambda>id. False)([] := True)\<rparr>"
    by (simp add: AddTransaction_exDeposit)
  have two: "AddTransaction ioOk (exDeposit [] ''W'' 7) ?s1 =
     (None, ?s1\<lparr>data := (data ?s1)
         \<lparr>Wallets := [''W'' \<mapsto> (exWallet ''W'')\<lparr>w_Balances := [\<lparr>bal_Coin = ''BTC'', bal_Amount = 12\<rparr>]\<rparr>],
          Transactions := [[] \<mapsto> exDeposit [] ''W'' 7]\<rparr>\<rparr>)"
    unfolding s1
    by (simp add: AddTransaction_def GetWallet_def updateBalanceOf_def updateBalance_def save_def
                ioOk_def exStorage_def exDeposit_def exTx_def exWallet_def Let_def)
  show ?thesis using b by (simp add: two) (simp add: s1)
qed

section \<open>Prices\<close>

text \<open>
  C6, as the code has it. \<^verbatim>\<open>SetPrice\<close> inserts or overwrites the entry under the very
  key it is given, for every price, whatever its sign. The lower-casing is done by the
  price command: for at least two arguments of which the second parses as a number,
  \<^verbatim>\<open>cmdPrice\<close> calls \<^verbatim>\<open>SetPrice\<close> with the lower-cased first argument, so the
  entry is stored under the lower-case symbol.
\<close>

theorem price_key:
  assumes "2 \<le> length args" and "ParseFloat (args ! 1) = Some price"
  shows "Prices (data (snd (SetPrice io coin price s))) = (Prices (data s))(coin \<mapsto> price)
       \<and> snd (cmdPrice ToLower ParseFloat io args s) = snd (SetPrice io (ToLower (args ! 0)) price s)
       \<and> Prices (data (snd (cmdPrice ToLower ParseFloat io args s)))
           = (Prices (data s))(ToLower (args ! 0) \<mapsto> price)"
  using assms by (simp add: cmdPrice_def SetPrice_def Let_def split: option.splits prod.splits)

theorem price_key_witness:
  "Prices (data (snd (cmdPrice (map asciiLower) exParseFloat ioOk [''BTC'', ''3''] exStorage)))
     = (Prices (data exStorage))(''btc'' \<mapsto> 3)"
proof -
  have a: "2 \<le> length [''BTC'', ''3'']" by simp
  have b: "exParseFloat ([''BTC'', ''3''] ! 1) = Some 3" by (simp add: exParseFloat_def)
  have c: "map asciiLower ([''BTC'', ''3''] ! 0) = ''btc''" by (simp add: asciiLower_def)
  from price_key [where args = "[''BTC'', ''3'']" and ParseFloat = exParseFloat and price = 3
      and io = ioOk and s = exStorage and ToLower = "map asciiLower" and coin = "''BTC''", OF a b]
  have "Prices (data (snd (cmdPrice (map asciiLower) exParseFloat ioOk [''BTC'', ''3''] exStorage)))
     = (Prices (data exStorage))(map asciiLower ([''BTC'', ''3''] ! 0) \<mapsto> 3)"
    by (rule conjunct2 [THEN conjunct2])
  then show ?thesis by (simp only: c)
qed

text \<open>
  \<^verbatim>\<open>SetPrice\<close> itself does not normalise the key: called with \<open>BTC\<close> it stores the
  price under \<open>BTC\<close>, and there is no entry under \<open>btc\<close>.
\<close>

theorem SetPrice_key_counterexample:
  "map asciiLower ''BTC'' = ''btc''
   \<and> Prices (data (snd (SetPrice ioOk ''BTC'' 3 exStorage))) ''BTC'' = Some 3
   \<and> Prices (data (snd (SetPrice ioOk ''BTC'' 3 exStorage))) ''btc'' = None
   \<and> Prices (data (snd (SetPrice ioOk ''BTC'' 3 exStorage)))
       \<noteq> (Prices (data exStorage))(map asciiLower ''BTC'' \<mapsto> 3)"
proof -
  have l: "map asciiLower ''BTC'' = ''btc''" by (simp add: asciiLower_def)
  have a: "Prices (data (snd (SetPrice ioOk ''BTC'' 3 exStorage))) ''BTC'' = Some 3"
    by (simp add: SetPrice_def Let_def)
  have b: "Prices (data (snd (SetPrice ioOk ''BTC'' 3 exStorage))) ''btc'' = None"
    by (simp add: SetPrice_def Let_def exStorage_def)
  have "((Prices (data exStorage))(''btc'' \<mapsto> 3)) ''btc'' = Some 3" by simp
  with b have "Prices (data (snd (SetPrice ioOk ''BTC'' 3 exStorage)))
       \<noteq> (Prices (data exStorage))(''btc'' \<mapsto> 3)" by (metis option.distinct(1))
  with l a b show ?thesis by simp
qed

section \<open>Deleting a transaction\<close>



section \<open>Transfers\<close>

text \<open>
  C3. A transfer is to fail when neither side resolves to a wallet. The code tests
  whether both lookups failed, and a side whose name is empty is not looked up: with an
  empty source name and a destination that names no wallet, \<^verbatim>\<open>AddTransaction\<close> returns
  no error, stores the transaction and changes no balance.
\<close>

theorem AddTransaction_transfer_blank_source:
  "Wallets (data exStorage) [] = None
   \<and> Wallets (data exStorage) ''ghost'' = None
   \<and> fst (AddTransaction ioOk (exTransfer ''tx_1'' [] ''ghost'' 5) exStorage) = None
   \<and> Transactions (data (snd (AddTransaction ioOk (exTransfer ''tx_1'' [] ''ghost'' 5) exStorage))) ''tx_1''
       = Some (exTransfer ''tx_1'' [] ''ghost'' 5)
   \<and> Wallets (data (snd (AddTransaction ioOk (exTransfer ''tx_1'' [] ''ghost'' 5) exStorage)))
       = Wallets (data exStorage)"
  by (simp add: AddTransaction_def GetWallet_def save_def ioOk_def exStorage_def exTransfer_def
                exTx_def Let_def)

section \<open>Deltas on the wallet map\<close>

lemma applyDelta_missing: "ws n = None \<Longrightarrow> applyDelta ws (n, c, d) = ws"
  by (simp add: applyDelta_def)

lemma applyDelta_present:
  "ws n = Some w \<Longrightarrow> applyDelta ws (n, c, d) = ws(n \<mapsto> updateBalance w c d)"
  by (simp add: applyDelta_def)







lemma accepted_not_duplicate:
  "fst (AddTransaction io tx s) = None \<Longrightarrow> \<not> duplicate tx s"
  by (auto simp: AddTransaction_duplicate_case)

lemma Wallets_storeTx: "Wallets (data (snd (storeTx io tx s))) = Wallets (data s)"
  by (simp add: snd_storeTx)


text \<open>What an accepted insertion does to the wallets, as deltas.\<close>

lemma accepted_swap:
  assumes "tx_Type tx = TxTypeSwap" and "fst (AddTransaction io tx s) = None"
  shows "Wallets (data s) (tx_SwapWallet tx) \<noteq> None
       \<and> AddTransaction io tx s = storeTx io tx
          (updateBalanceOf
            (updateBalanceOf s (tx_SwapWallet tx) (tx_SellCoin tx) (- tx_SellAmount tx))
            (tx_SwapWallet tx) (tx_BuyCoin tx) (tx_BuyAmount tx))"
  using assms accepted_not_duplicate [OF assms(2)]
  by (auto simp: AddTransaction_swap split: option.splits)

lemma applyDelta_None_iff: "applyDelta ws d n = None \<longleftrightarrow> ws n = None"
  by (cases d) (auto simp: applyDelta_def split: option.splits)

text \<open>
  A transfer whose two names are not empty: it is refused exactly when neither names a
  wallet, and otherwise the source loses the amount and the destination gains it, each
  only if it is a wallet.
\<close>

lemma AddTransaction_transfer_named:
  assumes "tx_Type tx = TxTypeTransfer" and "\<not> duplicate tx s"
    and "tx_FromWallet tx \<noteq> []" and "tx_ToWallet tx \<noteq> []"
  shows "if Wallets (data s) (tx_FromWallet tx) = None \<and> Wallets (data s) (tx_ToWallet tx) = None
         then AddTransaction io tx s = (Some InvalidReference, s)
         else fst (AddTransaction io tx s)
                = map_option SaveFailed (io (data (snd (AddTransaction io tx s))))
            \<and> Wallets (data (snd (AddTransaction io tx s)))
                = applyDelta (applyDelta (Wallets (data s))
                    (tx_FromWallet tx, tx_Coin tx, - tx_Amount tx))
                    (tx_ToWallet tx, tx_Coin tx, tx_Amount tx)"
  using assms
    by (auto simp: AddTransaction_transfer lookupFails_def resolves_def fst_storeTx snd_storeTx
                   Wallets_updateBalanceOf applyDelta_missing applyDelta_None_iff Let_def)

section \<open>Swaps\<close>

text \<open>
  C4, with the case of equal coins told apart. For a swap that \<^verbatim>\<open>AddTransaction\<close>
  accepts, the wallet \<open>W\<close> exists and afterwards: when the coin sold and the coin bought
  differ, the balance of the coin sold is the earlier balance minus the amount sold and
  the balance of the coin bought is the earlier balance plus the amount bought; when they
  are the same coin, its balance is the earlier balance minus the amount sold plus the
  amount bought. A missing entry counts as balance zero, and the earlier value may be
  negative. Both coins have an entry afterwards, the entries of all other coins and the
  other fields of \<open>W\<close> are unchanged, and so is every other wallet.
\<close>

theorem swap_balances:
  fixes tx :: "('a::group_add) Tx"
  assumes swap: "tx_Type tx = TxTypeSwap" and accepted: "fst (AddTransaction io tx s) = None"
  shows "\<exists>w w'. Wallets (data s) (tx_SwapWallet tx) = Some w
       \<and> Wallets (data (snd (AddTransaction io tx s))) (tx_SwapWallet tx) = Some w'
       \<and> w' = w\<lparr>w_Balances := w_Balances w'\<rparr>
       \<and> (if tx_SellCoin tx = tx_BuyCoin tx
          then balanceOf (w_Balances w') (tx_SellCoin tx)
                 = balanceOf (w_Balances w) (tx_SellCoin tx) - tx_SellAmount tx + tx_BuyAmount tx
          else balanceOf (w_Balances w') (tx_SellCoin tx)
                 = balanceOf (w_Balances w) (tx_SellCoin tx) - tx_SellAmount tx
             \<and> balanceOf (w_Balances w') (tx_BuyCoin tx)
                 = balanceOf (w_Balances w) (tx_BuyCoin tx) + tx_BuyAmount tx)
       \<and> entryOf (w_Balances w') (tx_SellCoin tx) \<noteq> None
       \<and> entryOf (w_Balances w') (tx_BuyCoin tx) \<noteq> None
       \<and> (\<forall>c. c \<noteq> tx_SellCoin tx \<and> c \<noteq> tx_BuyCoin tx \<longrightarrow>
             entryOf (w_Balances w') c = entryOf (w_Balances w) c)
       \<and> (\<forall>n. n \<noteq> tx_SwapWallet tx \<longrightarrow>
             Wallets (data (snd (AddTransaction io tx s))) n = Wallets (data s) n)"
proof -
  from accepted_swap [OF swap accepted] obtain w where
    w: "Wallets (data s) (tx_SwapWallet tx) = Some w" and
    eq: "AddTransaction io tx s = storeTx io tx
          (updateBalanceOf
            (updateBalanceOf s (tx_SwapWallet tx) (tx_SellCoin tx) (- tx_SellAmount tx))
            (tx_SwapWallet tx) (tx_BuyCoin tx) (tx_BuyAmount tx))"
    by auto
  let ?w' = "updateBalance (updateBalance w (tx_SellCoin tx) (- tx_SellAmount tx))
               (tx_BuyCoin tx) (tx_BuyAmount tx)"
  have ws: "Wallets (data (snd (AddTransaction io tx s))) = (Wallets (data s))(tx_SwapWallet tx \<mapsto> ?w')"
    using w by (simp add: eq Wallets_storeTx Wallets_updateBalanceOf applyDelta_def)
  have bal: "w_Balances ?w' =
      addToBalances (addToBalances (w_Balances w) (tx_SellCoin tx) (- tx_SellAmount tx))
        (tx_BuyCoin tx) (tx_BuyAmount tx)"
    by (simp add: updateBalance_def)
  have rest: "?w' = w\<lparr>w_Balances := w_Balances ?w'\<rparr>"
    by (simp add: updateBalance_def)
  have amounts: "if tx_SellCoin tx = tx_BuyCoin tx
          then balanceOf (w_Balances ?w') (tx_SellCoin tx)
                 = balanceOf (w_Balances w) (tx_SellCoin tx) - tx_SellAmount tx + tx_BuyAmount tx
          else balanceOf (w_Balances ?w') (tx_SellCoin tx)
                 = balanceOf (w_Balances w) (tx_SellCoin tx) - tx_SellAmount tx
             \<and> balanceOf (w_Balances ?w') (tx_BuyCoin tx)
                 = balanceOf (w_Balances w) (tx_BuyCoin tx) + tx_BuyAmount tx"
    by (cases "tx_SellCoin tx = tx_BuyCoin tx")
       (simp_all add: updateBalance_def balanceOf_addToBalances)
  have present: "entryOf (w_Balances ?w') (tx_SellCoin tx) \<noteq> None"
    "entryOf (w_Balances ?w') (tx_BuyCoin tx) \<noteq> None"
    by (simp_all add: bal entryOf_addToBalances)
  have others: "\<forall>c. c \<noteq> tx_SellCoin tx \<and> c \<noteq> tx_BuyCoin tx \<longrightarrow>
             entryOf (w_Balances ?w') c = entryOf (w_Balances w) c"
    by (simp add: bal entryOf_addToBalances)
  have wallets: "\<forall>n. n \<noteq> tx_SwapWallet tx \<longrightarrow>
             Wallets (data (snd (AddTransaction io tx s))) n = Wallets (data s) n"
    by (simp add: ws)
  have here: "Wallets (data (snd (AddTransaction io tx s))) (tx_SwapWallet tx) = Some ?w'"
    by (simp add: ws)
  from w here rest amounts present others wallets show ?thesis by blast
qed

theorem swap_balances_witness:
  "tx_Type (exSwap ''tx_1'' ''W'' 2 ''USDC'' 1 ''ETH'') = TxTypeSwap
   \<and> fst (AddTransaction ioOk (exSwap ''tx_1'' ''W'' 2 ''USDC'' 1 ''ETH'') exStorage) = None
   \<and> (\<exists>w'. Wallets (data (snd (AddTransaction ioOk (exSwap ''tx_1'' ''W'' 2 ''USDC'' 1 ''ETH'') exStorage))) ''W''
              = Some w'
          \<and> balanceOf (w_Balances w') ''USDC'' = 0 - 2
          \<and> balanceOf (w_Balances w') ''ETH'' = 0 + 1)"
proof -
  let ?tx = "exSwap ''tx_1'' ''W'' 2 ''USDC'' 1 ''ETH''"
  have a: "tx_Type ?tx = TxTypeSwap" by (simp add: exSwap_def exTx_def)
  have b: "fst (AddTransaction ioOk ?tx exStorage) = None"
    by (simp add: AddTransaction_def GetWallet_def save_def ioOk_def exSwap_def exTx_def
                  exStorage_def Let_def)
  have f: "tx_SwapWallet ?tx = ''W''" "tx_SellCoin ?tx = ''USDC''" "tx_BuyCoin ?tx = ''ETH''"
    "tx_SellAmount ?tx = 2" "tx_BuyAmount ?tx = 1"
    by (simp_all add: exSwap_def exTx_def)
  have w0: "Wallets (data exStorage) ''W'' = Some (exWallet ''W'')" by (simp add: exStorage_def)
  have z: "balanceOf (w_Balances (exWallet ''W'')) c = 0" for c
    by (simp add: exWallet_def balanceOf_def)
  from swap_balances [OF a b] w0 z a b show ?thesis
    by (auto simp: f)
qed

text \<open>
  When the coin sold is the coin bought, the two amounts meet in one entry: after a swap
  that sells 1 ETH and buys 2 ETH in a wallet without ETH entry, the balance is 1, not
  the \<open>0 - 1\<close> of a decrease by the amount sold.
\<close>

theorem swap_same_coin_counterexample:
  "tx_Type (exSwap ''tx_1'' ''W'' 1 ''ETH'' 2 ''ETH'') = TxTypeSwap
   \<and> fst (AddTransaction ioOk (exSwap ''tx_1'' ''W'' 1 ''ETH'' 2 ''ETH'') exStorage) = None
   \<and> map_option (\<lambda>w. balanceOf (w_Balances w) ''ETH'') (Wallets (data exStorage) ''W'') = Some 0
   \<and> map_option (\<lambda>w. balanceOf (w_Balances w) ''ETH'')
        (Wallets (data (snd (AddTransaction ioOk (exSwap ''tx_1'' ''W'' 1 ''ETH'' 2 ''ETH'') exStorage))) ''W'')
       = Some 1
   \<and> (1::int) \<noteq> 0 - 1"
  by (simp add: AddTransaction_def GetWallet_def updateBalanceOf_def updateBalance_def save_def
                ioOk_def exSwap_def exTx_def exStorage_def exWallet_def balanceOf_def Let_def)

section \<open>Insertion followed by deletion\<close>









text \<open>
  With a wallet stored under the empty name, a transfer from the empty name is inserted
  without touching that wallet and deleted with the amount added to it.
\<close>

lemma transfer_blank_name_not_restored:
  "fst (AddTransaction ioOk (exTransfer ''tx_1'' [] ''W'' 5) exStorageBlank) = None
   \<and> map_option w_Balances
        (Wallets (data (snd (AddTransaction ioOk (exTransfer ''tx_1'' [] ''W'' 5) exStorageBlank))) [])
       = Some []
   \<and> map_option w_Balances
        (Wallets (data (snd (DeleteTransaction ioOk ''tx_1''
           (snd (AddTransaction ioOk (exTransfer ''tx_1'' [] ''W'' 5) exStorageBlank))))) [])
       = Some [\<lparr>bal_Coin = ''BTC'', bal_Amount = 5\<rparr>]"
proof -
  have a: "AddTransaction ioOk (exTransfer ''tx_1'' [] ''W'' 5) exStorageBlank =
     (None,
      exStorageBlank\<lparr>data := (data exStorageBlank)
         \<lparr>Wallets := [''W'' \<mapsto> (exWallet ''W'')\<lparr>w_Balances := [\<lparr>bal_Coin = ''BTC'', bal_Amount = 5\<rparr>]\<rparr>,
                      [] \<mapsto> exWallet []],
          Transactions := [''tx_1'' \<mapsto> exTransfer ''tx_1'' [] ''W'' 5]\<rparr>,
        txIndex := (\<lambda>id. False)(''tx_1'' := True)\<rparr>)"
    by (simp add: AddTransaction_def GetWallet_def updateBalanceOf_def updateBalance_def save_def
                  ioOk_def exStorageBlank_def exStorage_def exTransfer_def exTx_def exWallet_def
                  Let_def fun_upd_twist)
  show ?thesis
    by (simp add: a)
       (simp add: DeleteTransaction_def GetWallet_def updateBalanceOf_def updateBalance_def
                  save_def ioOk_def exStorageBlank_def exStorage_def exTransfer_def exTx_def
                  exWallet_def Let_def)
qed

section \<open>Grouping by month\<close>











section \<open>Flow edges\<close>














section \<open>The edge key as a string\<close>

lemma split_at_separator:
  "c \<notin> set xs \<Longrightarrow> c \<notin> set xs' \<Longrightarrow> xs @ c # ys = xs' @ c # ys' \<Longrightarrow> xs = xs' \<and> ys = ys'"
proof (induction xs arbitrary: xs')
  case Nil
  then show ?case by (cases xs') auto
next
  case (Cons x xs)
  then show ?case by (cases xs') auto
qed

text \<open>
  Keys made of names and coins without the separator are equal only for equal (from, to,
  coin, type); with a separator in a name, different ends can give one key.
\<close>

lemma edgeKey_inject:
  assumes "CHR ''|'' \<notin> set from \<union> set to \<union> set coin"
    and "CHR ''|'' \<notin> set from' \<union> set to' \<union> set coin'"
    and "edgeKey from to coin txType = edgeKey from' to' coin' txType'"
  shows "from = from' \<and> to = to' \<and> coin = coin' \<and> txType = txType'"
proof -
  from assms(3) have 1: "from @ CHR ''|'' # (to @ ''|'' @ coin @ ''|'' @ txType)
      = from' @ CHR ''|'' # (to' @ ''|'' @ coin' @ ''|'' @ txType')"
    by (simp add: edgeKey_def)
  from assms(1,2) have "CHR ''|'' \<notin> set from" "CHR ''|'' \<notin> set from'" by simp_all
  from split_at_separator [OF this 1] have f: "from = from'"
    and 2: "to @ CHR ''|'' # (coin @ ''|'' @ txType) = to' @ CHR ''|'' # (coin' @ ''|'' @ txType')"
    by simp_all
  from assms(1,2) have "CHR ''|'' \<notin> set to" "CHR ''|'' \<notin> set to'" by simp_all
  from split_at_separator [OF this 2] have t: "to = to'"
    and 3: "coin @ CHR ''|'' # txType = coin' @ CHR ''|'' # txType'"
    by simp_all
  from assms(1,2) have "CHR ''|'' \<notin> set coin" "CHR ''|'' \<notin> set coin'" by simp_all
  from split_at_separator [OF this 3] f t show ?thesis by simp
qed

lemma edgeKey_collision:
  "edgeKey ''a|b'' ''c'' coin txType = edgeKey ''a'' ''b|c'' coin txType"
  by (simp add: edgeKey_def)

lemma keyOf_eq_iff:
  assumes "CHR ''|'' \<notin> set (edgeFrom t) \<union> set (edgeTo t) \<union> set (tx_Coin t)"
    and "CHR ''|'' \<notin> set (edgeFrom tx) \<union> set (edgeTo tx) \<union> set (tx_Coin tx)"
  shows "keyOf t = keyOf tx \<longleftrightarrow>
         edgeFrom t = edgeFrom tx \<and> edgeTo t = edgeTo tx \<and> tx_Coin t = tx_Coin tx
         \<and> tx_Type t = tx_Type tx"
  using edgeKey_inject [OF assms] by (auto simp: keyOf_def)

end
